theory Spec2Isabelle
  imports Main
begin

section \<open>Data model of the auth core (src/backend/src/auth/auth.py)\<close>

text \<open>
  A Python dict with string keys and string values is an association list; a lookup
  reads the first pair with the key. Strings are lists of 8-bit characters, which is
  what a WSGI server hands to the application for a header value (code points below 256).
\<close>

type_synonym dict = "(string \<times> string) list"

text \<open>
  \<^verbatim>\<open>class AuthError(Exception)\<close> keeps the two constructor arguments: the dict
  \<open>error\<close> and the integer \<open>status_code\<close>.
\<close>

record AuthError =
  error :: dict
  status_code :: int

text \<open>
  What a call can raise. \<open>AuthErr\<close> is the class of this repository. \<open>KeyError\<close> is
  what a subscript \<^verbatim>\<open>d[k]\<close> raises for a missing key. \<open>LibraryError\<close> is an
  exception raised inside urllib, json or jose, named by its class; these libraries
  know nothing of \<open>AuthError\<close> and cannot raise it.
\<close>

datatype exn = AuthErr AuthError | KeyError string | LibraryError string

text \<open>
  The decoded payload. auth.py reads only the member \<^verbatim>\<open>permissions\<close>, a JSON array of
  permission strings when present; the other members (iss, aud, exp, ...) are carried
  along and never read.
\<close>

record payload =
  permissions :: "string list option"
  other_claims :: dict

text \<open>
  The outcome of \<^verbatim>\<open>jwt.decode\<close>: the payload, or one of the exceptions that the
  three \<^verbatim>\<open>except\<close> clauses tell apart. \<open>OtherException\<close> is any further subclass
  of \<^verbatim>\<open>Exception\<close>, named by its class.
\<close>

datatype decode_result =
  Decoded payload
  | ExpiredSignatureError
  | JWTClaimsError
  | OtherException string

text \<open>
  The JSON document of the key-set endpoint after \<^verbatim>\<open>json.loads\<close>: an object whose
  members are arrays of key objects.
\<close>

type_synonym jwks = "(string \<times> dict list) list"

text \<open>
  Everything the auth core reads from outside itself: the headers of the request, and
  the library calls it makes. A library call either raises (the class name on the left)
  or returns.
\<close>

record env =
  request_headers :: dict
  urlopen :: "string \<Rightarrow> string + string"
  json_loads :: "string \<Rightarrow> string + jwks"
  get_unverified_header :: "string \<Rightarrow> string + dict"
  jwt_decode :: "string \<Rightarrow> dict \<Rightarrow> string list \<Rightarrow> string \<Rightarrow> string \<Rightarrow> decode_result"

definition AUTH0_DOMAIN :: string where
  "AUTH0_DOMAIN = ''dev-vibe.us.auth0.com''"

definition ALGORITHMS :: "string list" where
  "ALGORITHMS = [''RS256'']"

definition API_AUDIENCE :: string where
  "API_AUDIENCE = ''coffee''"

section \<open>Python primitives used by the source\<close>

text \<open>\<^verbatim>\<open>d[k]\<close> on a dict: the value, or KeyError.\<close>

definition subscript :: "(string \<times> 'v) list \<Rightarrow> string \<Rightarrow> exn + 'v" where
  "subscript d k = (case map_of d k of None \<Rightarrow> Inl (KeyError k) | Some v \<Rightarrow> Inr v)"

text \<open>
  \<^verbatim>\<open>s.split(' ')\<close> with an explicit separator: the string is cut at every occurrence
  of the separator, so the result has one part more than there are separators and
  parts may be empty.
\<close>

fun split_on :: "char \<Rightarrow> string \<Rightarrow> string list" where
  "split_on sep [] = [[]]"
| "split_on sep (c # cs) =
     (if c = sep then [] # split_on sep cs
      else (c # hd (split_on sep cs)) # tl (split_on sep cs))"

text \<open>
  \<^verbatim>\<open>str.lower\<close> on code points below 256: the ASCII capitals and the Latin-1 capitals
  (192 to 222 without the multiplication sign 215) move up by 32.
\<close>

definition lower_char :: "char \<Rightarrow> char" where
  "lower_char c =
     (let n = (of_char c :: nat)
      in if (65 \<le> n \<and> n \<le> 90) \<or> (192 \<le> n \<and> n \<le> 222 \<and> n \<noteq> 215)
         then char_of (n + 32) else c)"

definition lower :: "string \<Rightarrow> string" where
  "lower s = map lower_char s"

section \<open>get_token_auth_header\<close>

definition get_token_auth_header :: "dict \<Rightarrow> exn + string" where
  "get_token_auth_header data =
     (if map_of data ''Authorization'' = None then
        Inl (AuthErr \<lparr>error = [(''code'', ''authorization_header_missing''),
                              (''description'', ''Authorization header is expected'')],
                     status_code = 401\<rparr>)
      else
        (case subscript data ''Authorization'' of
           Inl e \<Rightarrow> Inl e
         | Inr v \<Rightarrow>
            (let auth_parts = split_on CHR '' '' v
             in if length auth_parts \<noteq> 2 \<or> lower (auth_parts ! 0) \<noteq> ''bearer'' then
                  Inl (AuthErr \<lparr>error = [(''code'', ''invalid_header''),
                      (''description'',
                       ''header must start with 'Bearer' and include proper token'')],
                     status_code = 401\<rparr>)
                else Inr (auth_parts ! 1))))"

section \<open>check_permissions\<close>

definition check_permissions :: "string \<Rightarrow> payload \<Rightarrow> exn + bool" where
  "check_permissions permission pl =
     (case permissions pl of
        None \<Rightarrow>
          Inl (AuthErr \<lparr>error = [(''code'', ''missing_permissions''),
                                (''description'', ''permissions must be sent with token'')],
                       status_code = 401\<rparr>)
      | Some ps \<Rightarrow>
          if permission \<notin> set ps then
            Inl (AuthErr \<lparr>error = [(''code'', ''not_authorized''),
                            (''description'', ''needed permission not found in permissions'')],
                         status_code = 401\<rparr>)
          else Inr True)"

section \<open>verify_decode_jwt\<close>

text \<open>
  The dict literal of lines 127 to 133: the five subscripts are evaluated in the order
  kty, kid, use, n, e, and the first missing one raises KeyError.
\<close>

definition copy_key :: "dict \<Rightarrow> exn + dict" where
  "copy_key key =
     (case subscript key ''kty'' of Inl x \<Rightarrow> Inl x | Inr kty \<Rightarrow>
      (case subscript key ''kid'' of Inl x \<Rightarrow> Inl x | Inr kid \<Rightarrow>
      (case subscript key ''use'' of Inl x \<Rightarrow> Inl x | Inr use \<Rightarrow>
      (case subscript key ''n'' of Inl x \<Rightarrow> Inl x | Inr n \<Rightarrow>
      (case subscript key ''e'' of Inl x \<Rightarrow> Inl x | Inr e \<Rightarrow>
         Inr [(''kty'', kty), (''kid'', kid), (''use'', use), (''n'', n), (''e'', e)])))))"

text \<open>
  The loop of lines 125 to 133 over \<^verbatim>\<open>jwks["keys"]\<close>, with the current value of
  \<open>rsa_key\<close> as accumulator. Every iteration compares \<^verbatim>\<open>key["kid"]\<close> with
  \<^verbatim>\<open>unverified_header["kid"]\<close>, and a match assigns \<open>rsa_key\<close> anew.
\<close>

fun scan_keys :: "dict list \<Rightarrow> dict \<Rightarrow> dict \<Rightarrow> exn + dict" where
  "scan_keys [] unverified_header rsa_key = Inr rsa_key"
| "scan_keys (key # keys) unverified_header rsa_key =
     (case subscript key ''kid'' of Inl x \<Rightarrow> Inl x | Inr kid \<Rightarrow>
      (case subscript unverified_header ''kid'' of Inl x \<Rightarrow> Inl x | Inr hkid \<Rightarrow>
         if kid = hkid then
           (case copy_key key of Inl x \<Rightarrow> Inl x
            | Inr r \<Rightarrow> scan_keys keys unverified_header r)
         else scan_keys keys unverified_header rsa_key))"

text \<open>
  The \<^verbatim>\<open>try\<close> statement of lines 137 to 159: \<^verbatim>\<open>jwt.decode\<close> is called with the
  token, the selected key and the three constants, and its exceptions are turned into
  AuthErrors by the first \<^verbatim>\<open>except\<close> clause that matches.
\<close>

definition try_decode :: "env \<Rightarrow> string \<Rightarrow> dict \<Rightarrow> exn + payload" where
  "try_decode ev token rsa_key =
     (case jwt_decode ev token rsa_key ALGORITHMS API_AUDIENCE
             (''https://'' @ AUTH0_DOMAIN @ ''/'') of
        Decoded pl \<Rightarrow> Inr pl
      | ExpiredSignatureError \<Rightarrow>
          Inl (AuthErr \<lparr>error = [(''code'', ''token_expired''),
                                (''description'', ''token is expired'')],
                       status_code = 401\<rparr>)
      | JWTClaimsError \<Rightarrow>
          Inl (AuthErr \<lparr>error = [(''code'', ''invalid_claims''),
                 (''description'',
                  ''incorrect claims,please check the audience and issuer'')],
               status_code = 401\<rparr>)
      | OtherException x \<Rightarrow>
          Inl (AuthErr \<lparr>error = [(''code'', ''invalid_header''),
                 (''description'', ''Unable to parse authentication token.'')],
               status_code = 401\<rparr>))"

text \<open>
  \<open>urlopen ev\<close> stands for lines 112 and 113 up to the decoded response text
  (\<^verbatim>\<open>urlopen(...)\<close>, \<^verbatim>\<open>.read()\<close>, \<^verbatim>\<open>.decode('utf-8')\<close>), \<open>json_loads ev\<close> for the
  parser. None of these calls is inside a \<^verbatim>\<open>try\<close>, and neither is
  \<^verbatim>\<open>jwt.get_unverified_header\<close>: what they raise leaves the function as it is. The
  truth value of the dict \<open>rsa_key\<close> in line 136 is that it is not empty.
\<close>

definition verify_decode_jwt :: "env \<Rightarrow> string \<Rightarrow> exn + payload" where
  "verify_decode_jwt ev token =
     (case urlopen ev (''https://'' @ AUTH0_DOMAIN @ ''/.well-known/jwks.json'') of
        Inl x \<Rightarrow> Inl (LibraryError x)
      | Inr text \<Rightarrow>
     (case json_loads ev text of
        Inl x \<Rightarrow> Inl (LibraryError x)
      | Inr jwks \<Rightarrow>
     (case get_unverified_header ev token of
        Inl x \<Rightarrow> Inl (LibraryError x)
      | Inr unverified_header \<Rightarrow>
          if map_of unverified_header ''kid'' = None then
            Inl (AuthErr \<lparr>error = [(''code'', ''invalid_header''),
                                  (''description'', ''Authorization malformed.'')],
                         status_code = 401\<rparr>)
          else
     (case subscript jwks ''keys'' of
        Inl x \<Rightarrow> Inl x
      | Inr keys \<Rightarrow>
     (case scan_keys keys unverified_header [] of
        Inl x \<Rightarrow> Inl x
      | Inr rsa_key \<Rightarrow>
          if rsa_key \<noteq> [] then try_decode ev token rsa_key
          else
            Inl (AuthErr \<lparr>error = [(''code'', ''invalid_header''),
                                  (''description'', ''Unable to find appropriate key'')],
                         status_code = 401\<rparr>))))))"

section \<open>requires_auth\<close>

text \<open>
  The wrapped operation \<open>f\<close> is called as \<^verbatim>\<open>f(*args, **kwargs)\<close>: it gets the
  arguments of the call and the state of the application, and returns a result or
  raises, leaving a new state. The three stages read the request and the network and
  leave the state of the application alone.
\<close>

definition requires_auth ::
  "string \<Rightarrow> ('a \<Rightarrow> 's \<Rightarrow> (exn + 'r) \<times> 's) \<Rightarrow> env \<Rightarrow> 'a \<Rightarrow> 's \<Rightarrow> (exn + 'r) \<times> 's" where
  "requires_auth permission f ev args s =
     (case get_token_auth_header (request_headers ev) of
        Inl x \<Rightarrow> (Inl x, s)
      | Inr token \<Rightarrow>
     (case verify_decode_jwt ev token of
        Inl x \<Rightarrow> (Inl x, s)
      | Inr pl \<Rightarrow>
     (case check_permissions permission pl of
        Inl x \<Rightarrow> (Inl x, s)
      | Inr ok \<Rightarrow> f args s)))"

text \<open>
  An operation that counts its own invocations: the state is paired with the number of
  times the operation has started.
\<close>

definition counted ::
  "('a \<Rightarrow> 's \<Rightarrow> (exn + 'r) \<times> 's) \<Rightarrow> 'a \<Rightarrow> nat \<times> 's \<Rightarrow> (exn + 'r) \<times> (nat \<times> 's)" where
  "counted f args ns =
     (case f args (snd ns) of (r, s') \<Rightarrow> (r, (Suc (fst ns), s')))"

section \<open>The error handler for AuthError (src/backend/src/api.py)\<close>

datatype json = JBool bool | JInt int | JStr string

text \<open>
  \<^verbatim>\<open>auth_error(exception)\<close> returns the pair of the JSON body and the HTTP status.
\<close>

definition auth_error :: "AuthError \<Rightarrow> exn + (string \<times> json) list \<times> int" where
  "auth_error exception =
     (case subscript (error exception) ''description'' of
        Inl x \<Rightarrow> Inl x
      | Inr d \<Rightarrow>
          Inr ([(''success'', JBool False),
                (''error'', JInt (status_code exception)),
                (''message'', JStr d)],
               status_code exception))"

section \<open>The token extractor as the specification words it\<close>

text \<open>
  The specification speaks of splitting on whitespace. That is \<^verbatim>\<open>str.split()\<close>
  without a separator: runs of whitespace separate, and no part is empty. The
  whitespace characters below 256 are 9 to 13, 28 to 32, 133 and 160.
\<close>

definition is_space :: "char \<Rightarrow> bool" where
  "is_space c =
     (let n = (of_char c :: nat)
      in (9 \<le> n \<and> n \<le> 13) \<or> (28 \<le> n \<and> n \<le> 32) \<or> n = 133 \<or> n = 160)"

fun split_whitespace_from :: "string \<Rightarrow> string \<Rightarrow> string list" where
  "split_whitespace_from cur [] = (if cur = [] then [] else [rev cur])"
| "split_whitespace_from cur (c # cs) =
     (if is_space c then
        (if cur = [] then split_whitespace_from [] cs
         else rev cur # split_whitespace_from [] cs)
      else split_whitespace_from (c # cur) cs)"

definition split_whitespace :: "string \<Rightarrow> string list" where
  "split_whitespace s = split_whitespace_from [] s"

definition get_token_auth_header_spec :: "dict \<Rightarrow> exn + string" where
  "get_token_auth_header_spec data =
     (case map_of data ''Authorization'' of
        None \<Rightarrow>
          Inl (AuthErr \<lparr>error = [(''code'', ''authorization_header_missing''),
                                (''description'', ''Authorization header is expected'')],
                       status_code = 401\<rparr>)
      | Some v \<Rightarrow>
          (case split_whitespace v of
             [scheme, token] \<Rightarrow>
               if lower scheme = ''bearer'' then Inr token
               else Inl (AuthErr \<lparr>error = [(''code'', ''invalid_header''),
                      (''description'',
                       ''header must start with 'Bearer' and include proper token'')],
                     status_code = 401\<rparr>)
           | _ \<Rightarrow>
               Inl (AuthErr \<lparr>error = [(''code'', ''invalid_header''),
                      (''description'',
                       ''header must start with 'Bearer' and include proper token'')],
                     status_code = 401\<rparr>)))"

section \<open>Well-formed key-set entries\<close>

text \<open>
  The specification's key set is a sequence of records that each carry \<open>kty\<close>, \<open>kid\<close>,
  \<open>use\<close>, \<open>n\<close> and \<open>e\<close>. An entry of the parsed document that has all five members is
  one the loop can read without a KeyError.
\<close>

definition has_key_fields :: "dict \<Rightarrow> bool" where
  "has_key_fields key =
     (map_of key ''kty'' \<noteq> None \<and> map_of key ''kid'' \<noteq> None \<and> map_of key ''use'' \<noteq> None \<and>
      map_of key ''n'' \<noteq> None \<and> map_of key ''e'' \<noteq> None)"

section \<open>Concrete requests for evaluating the statements\<close>

text \<open>Whether a stage ended in an AuthError.\<close>

fun is_AuthError :: "exn + 'a \<Rightarrow> bool" where
  "is_AuthError (Inl (AuthErr a)) = True"
| "is_AuthError r = False"

text \<open>
  A key set of three keys, two of them with the key id \<open>k1\<close>, and a request whose
  token names a key id. The library calls are fixed by their outcome: \<open>sample_env\<close>
  takes the header value, the key id of the token and what \<^verbatim>\<open>jwt.decode\<close> does.
\<close>

definition sample_keys :: "dict list" where
  "sample_keys =
     [[(''kty'', ''RSA''), (''kid'', ''k1''), (''use'', ''sig''), (''n'', ''n-old''),
       (''e'', ''AQAB'')],
      [(''kty'', ''RSA''), (''kid'', ''k2''), (''use'', ''sig''), (''n'', ''n-two''),
       (''e'', ''AQAB'')],
      [(''kty'', ''RSA''), (''kid'', ''k1''), (''use'', ''sig''), (''n'', ''n-new''),
       (''e'', ''AQAB''), (''alg'', ''RS256'')]]"

definition sample_env :: "string \<Rightarrow> string \<Rightarrow> decode_result \<Rightarrow> env" where
  "sample_env header_value kid outcome =
     \<lparr>request_headers = [(''Host'', ''localhost''), (''Authorization'', header_value)],
      urlopen = (\<lambda>url. Inr ''jwks.json''),
      json_loads = (\<lambda>text. Inr [(''keys'', sample_keys)]),
      get_unverified_header = (\<lambda>token. Inr [(''alg'', ''RS256''), (''kid'', kid)]),
      jwt_decode = (\<lambda>token key algorithms audience issuer. outcome)\<rparr>"

text \<open>The same request when the key-set endpoint cannot be reached.\<close>

definition unreachable_env :: env where
  "unreachable_env =
     (sample_env ''Bearer tok'' ''k1''
        (Decoded \<lparr>permissions = Some [''get:drinks-detail''], other_claims = []\<rparr>))
     \<lparr>urlopen := (\<lambda>url. Inl ''URLError'')\<rparr>"

text \<open>An operation that leaves its argument in the state and returns it.\<close>

definition sample_operation :: "string \<Rightarrow> string list \<Rightarrow> (exn + string) \<times> string list" where
  "sample_operation args s = (Inr args, args # s)"

section \<open>Facts about the primitives\<close>

lemma split_on_not_Nil: "split_on sep s \<noteq> []"
  by (cases s) simp_all

lemma split_on_no_sep: "sep \<notin> set s \<Longrightarrow> split_on sep s = [s]"
  by (induction s) auto

lemma split_on_append:
  "sep \<notin> set a \<Longrightarrow> split_on sep (a @ sep # b) = a # split_on sep b"
  by (induction a) auto

lemma split_on_single: "split_on sep s = [a] \<Longrightarrow> s = a \<and> sep \<notin> set a"
proof (induction s arbitrary: a)
  case Nil
  then show ?case by simp
next
  case (Cons c cs)
  show ?case
  proof (cases "c = sep")
    case True
    with Cons.prems show ?thesis by (simp add: split_on_not_Nil)
  next
    case False
    with Cons.prems have a: "a = c # hd (split_on sep cs)" and t: "tl (split_on sep cs) = []"
      by auto
    from t have "split_on sep cs = [hd (split_on sep cs)]"
      using split_on_not_Nil [of sep cs] by (cases "split_on sep cs") auto
    from Cons.IH [OF this] a False show ?thesis by auto
  qed
qed

lemma split_on_pair:
  "split_on sep s = [a, b] \<Longrightarrow> s = a @ sep # b \<and> sep \<notin> set a \<and> sep \<notin> set b"
proof (induction s arbitrary: a)
  case Nil
  then show ?case by simp
next
  case (Cons c cs)
  show ?case
  proof (cases "c = sep")
    case True
    with Cons.prems have "a = []" and "split_on sep cs = [b]" by auto
    with split_on_single [of sep cs b] True show ?thesis by auto
  next
    case False
    with Cons.prems have a: "a = c # hd (split_on sep cs)" and t: "tl (split_on sep cs) = [b]"
      by auto
    from t have "split_on sep cs = [hd (split_on sep cs), b]"
      using split_on_not_Nil [of sep cs] by (cases "split_on sep cs") auto
    from Cons.IH [OF this] a False show ?thesis by auto
  qed
qed

lemma split_on_pair_iff:
  "split_on sep s = [a, b] \<longleftrightarrow> s = a @ sep # b \<and> sep \<notin> set a \<and> sep \<notin> set b"
  using split_on_pair [of sep s a b] by (auto simp: split_on_append split_on_no_sep)

lemma length_two: "length xs = 2 \<longleftrightarrow> (\<exists>a b. xs = [a, b])"
  by (cases xs; cases "tl xs") auto

lemma subscript_Some: "map_of d k = Some v \<Longrightarrow> subscript d k = Inr v"
  by (simp add: subscript_def)

lemma subscript_None: "map_of d k = None \<Longrightarrow> subscript d k = Inl (KeyError k)"
  by (simp add: subscript_def)

lemma copy_key_fields:
  "map_of key ''kty'' = Some kty \<Longrightarrow> map_of key ''kid'' = Some kid \<Longrightarrow>
   map_of key ''use'' = Some use \<Longrightarrow> map_of key ''n'' = Some n \<Longrightarrow>
   map_of key ''e'' = Some e \<Longrightarrow>
   copy_key key = Inr [(''kty'', kty), (''kid'', kid), (''use'', use), (''n'', n), (''e'', e)]"
  by (simp add: copy_key_def subscript_Some)

lemma scan_keys_no_match:
  "map_of unverified_header ''kid'' = Some hkid \<Longrightarrow>
   \<forall>key \<in> set keys. \<exists>kid. map_of key ''kid'' = Some kid \<and> kid \<noteq> hkid \<Longrightarrow>
   scan_keys keys unverified_header rsa_key = Inr rsa_key"
proof (induction keys)
  case Nil
  then show ?case by simp
next
  case (Cons key keys)
  from Cons.prems(2) obtain kid where "map_of key ''kid'' = Some kid" and "kid \<noteq> hkid"
    by auto
  with Cons show ?case
    by (simp add: subscript_Some)
qed

lemma scan_keys_append:
  "scan_keys (pre @ post) unverified_header rsa_key =
     (case scan_keys pre unverified_header rsa_key of
        Inl x \<Rightarrow> Inl x
      | Inr r \<Rightarrow> scan_keys post unverified_header r)"
  by (induction pre arbitrary: rsa_key) (auto split: sum.splits)

lemma scan_keys_match:
  "map_of unverified_header ''kid'' = Some hkid \<Longrightarrow> map_of key ''kid'' = Some hkid \<Longrightarrow>
   scan_keys (key # keys) unverified_header rsa_key =
     (case copy_key key of Inl x \<Rightarrow> Inl x | Inr r \<Rightarrow> scan_keys keys unverified_header r)"
  by (simp add: subscript_Some)

lemma scan_keys_not_AuthErr: "scan_keys keys unverified_header rsa_key \<noteq> Inl (AuthErr a)"
  by (induction keys arbitrary: rsa_key)
     (auto simp: subscript_def copy_key_def split: option.splits sum.splits)

lemma sample_env_simps:
  "request_headers (sample_env hv kid outcome) =
     [(''Host'', ''localhost''), (''Authorization'', hv)]"
  "urlopen (sample_env hv kid outcome) url = Inr ''jwks.json''"
  "json_loads (sample_env hv kid outcome) text = Inr [(''keys'', sample_keys)]"
  "get_unverified_header (sample_env hv kid outcome) token =
     Inr [(''alg'', ''RS256''), (''kid'', kid)]"
  "jwt_decode (sample_env hv kid outcome) token key algs aud iss = outcome"
  by (simp_all add: sample_env_def)

lemma copy_key_has_key_fields: "has_key_fields key \<Longrightarrow> \<exists>r. copy_key key = Inr r"
  by (auto simp: has_key_fields_def copy_key_def subscript_def)

lemma scan_keys_has_key_fields:
  "map_of unverified_header ''kid'' = Some hkid \<Longrightarrow> list_all has_key_fields keys \<Longrightarrow>
   \<exists>r. scan_keys keys unverified_header rsa_key = Inr r"
proof (induction keys arbitrary: rsa_key)
  case Nil
  then show ?case by simp
next
  case (Cons key keys)
  from Cons.prems(2) have k: "has_key_fields key" and ks: "list_all has_key_fields keys"
    by simp_all
  from k obtain kid where kid: "map_of key ''kid'' = Some kid"
    by (auto simp: has_key_fields_def)
  from k obtain r where r: "copy_key key = Inr r"
    using copy_key_has_key_fields by blast
  show ?case
  proof (cases "kid = hkid")
    case True
    with kid r Cons.prems(1) Cons.IH [OF Cons.prems(1) ks, of r] show ?thesis
      by (simp add: subscript_Some)
  next
    case False
    with kid Cons.prems(1) Cons.IH [OF Cons.prems(1) ks, of rsa_key] show ?thesis
      by (simp add: subscript_Some)
  qed
qed

lemma scan_keys_last_match:
  assumes hdr: "map_of unverified_header ''kid'' = Some hkid"
    and pre: "list_all has_key_fields pre"
    and key: "map_of key ''kty'' = Some kty" "map_of key ''kid'' = Some hkid"
      "map_of key ''use'' = Some use" "map_of key ''n'' = Some n" "map_of key ''e'' = Some e"
    and post: "\<forall>k \<in> set post. \<exists>kid. map_of k ''kid'' = Some kid \<and> kid \<noteq> hkid"
  shows "scan_keys (pre @ key # post) unverified_header rsa_key =
           Inr [(''kty'', kty), (''kid'', hkid), (''use'', use), (''n'', n), (''e'', e)]"
proof -
  from scan_keys_has_key_fields [OF hdr pre] obtain r
    where r: "scan_keys pre unverified_header rsa_key = Inr r" by blast
  have c: "copy_key key =
      Inr [(''kty'', kty), (''kid'', hkid), (''use'', use), (''n'', n), (''e'', e)]"
    using key by (rule copy_key_fields)
  have "scan_keys (key # post) unverified_header r =
      Inr [(''kty'', kty), (''kid'', hkid), (''use'', use), (''n'', n), (''e'', e)]"
    using scan_keys_match [OF hdr key(2), of post r] c scan_keys_no_match [OF hdr post]
    by simp
  with r show ?thesis
    by (simp add: scan_keys_append)
qed

lemma scan_sample_keys:
  "scan_keys sample_keys [(''alg'', ''RS256''), (''kid'', ''k1'')] [] =
     Inr [(''kty'', ''RSA''), (''kid'', ''k1''), (''use'', ''sig''), (''n'', ''n-new''),
          (''e'', ''AQAB'')]"
  by (simp add: sample_keys_def subscript_def copy_key_def)

lemma check_permissions_Inr: "check_permissions permission pl = Inr ok \<Longrightarrow> ok = True"
  by (auto simp: check_permissions_def split: option.splits if_splits)

lemma sample_token: "get_token_auth_header
    (request_headers (sample_env ''Bearer tok'' kid outcome)) = Inr ''tok''"
  by (simp add: sample_env_simps get_token_auth_header_def subscript_def) code_simp

lemma sample_headers_token:
  "get_token_auth_header [(''Host'', ''localhost''), (''Authorization'', ''Bearer tok'')] =
     Inr ''tok''"
  using sample_token [of kid outcome] by (simp add: sample_env_simps)

lemma verify_sample:
  "verify_decode_jwt (sample_env hv ''k1'' outcome) token =
     try_decode (sample_env hv ''k1'' outcome) token
       [(''kty'', ''RSA''), (''kid'', ''k1''), (''use'', ''sig''), (''n'', ''n-new''),
        (''e'', ''AQAB'')]"
  by (simp add: verify_decode_jwt_def sample_env_simps subscript_def scan_sample_keys)

lemma get_token_auth_header_description:
  "get_token_auth_header data = Inl (AuthErr a) \<Longrightarrow> map_of (error a) ''description'' \<noteq> None"
  by (auto simp: get_token_auth_header_def subscript_def Let_def split: if_splits option.splits)

lemma check_permissions_description:
  "check_permissions permission pl = Inl (AuthErr a) \<Longrightarrow>
   map_of (error a) ''description'' \<noteq> None"
  by (auto simp: check_permissions_def split: if_splits option.splits)

lemma try_decode_description:
  "try_decode ev token rsa_key = Inl (AuthErr a) \<Longrightarrow> map_of (error a) ''description'' \<noteq> None"
  by (auto simp: try_decode_def split: decode_result.splits)

lemma subscript_not_AuthErr: "subscript d k \<noteq> Inl (AuthErr a)"
  by (simp add: subscript_def split: option.splits)

lemma verify_decode_jwt_description:
  assumes "verify_decode_jwt ev token = Inl (AuthErr a)"
  shows "map_of (error a) ''description'' \<noteq> None"
proof -
  let ?url = "''https://'' @ AUTH0_DOMAIN @ ''/.well-known/jwks.json''"
  from assms obtain body where body: "urlopen ev ?url = Inr body"
    by (cases "urlopen ev ?url") (auto simp: verify_decode_jwt_def)
  from assms body obtain jwks where jwks: "json_loads ev body = Inr jwks"
    by (cases "json_loads ev body") (auto simp: verify_decode_jwt_def)
  from assms body jwks obtain hdr where hdr: "get_unverified_header ev token = Inr hdr"
    by (cases "get_unverified_header ev token") (auto simp: verify_decode_jwt_def)
  show ?thesis
  proof (cases "map_of hdr ''kid'' = None")
    case True
    with assms body jwks hdr show ?thesis
      by (auto simp: verify_decode_jwt_def)
  next
    case False
    with assms body jwks hdr obtain keys where keys: "subscript jwks ''keys'' = Inr keys"
      using subscript_not_AuthErr [of jwks "''keys''" a]
      by (cases "subscript jwks ''keys''") (auto simp: verify_decode_jwt_def)
    from assms body jwks hdr False keys obtain r where r: "scan_keys keys hdr [] = Inr r"
      using scan_keys_not_AuthErr [of keys hdr "[]" a]
      by (cases "scan_keys keys hdr []") (auto simp: verify_decode_jwt_def)
    show ?thesis
    proof (cases "r = []")
      case True
      with assms body jwks hdr False keys r show ?thesis
        by (auto simp: verify_decode_jwt_def)
    next
      case nonempty: False
      with assms body jwks hdr False keys r have "try_decode ev token r = Inl (AuthErr a)"
        by (auto simp: verify_decode_jwt_def)
      then show ?thesis by (rule try_decode_description)
    qed
  qed
qed

lemma unreachable_env_simps:
  "request_headers unreachable_env =
     [(''Host'', ''localhost''), (''Authorization'', ''Bearer tok'')]"
  "urlopen unreachable_env url = Inl ''URLError''"
  by (simp_all add: unreachable_env_def sample_env_def)

section \<open>The token extractor\<close>

text \<open>
  Claim C3, as the code has it. Without an \<open>Authorization\<close> entry the extractor
  raises AuthError \<open>authorization_header_missing\<close> with status 401. Otherwise the value
  is cut at every single space character: a value made of a scheme and a token with
  exactly one space between them and no other space, whose scheme is \<open>bearer\<close> in any
  mix of cases, yields the token as it stands; every other value raises AuthError
  \<open>invalid_header\<close> with status 401.
\<close>

theorem get_token_auth_header_single_space:
  "(map_of data ''Authorization'' = None \<longrightarrow>
      get_token_auth_header data =
        Inl (AuthErr \<lparr>error = [(''code'', ''authorization_header_missing''),
                              (''description'', ''Authorization header is expected'')],
                     status_code = 401\<rparr>))
   \<and> (map_of data ''Authorization'' = Some (scheme @ CHR '' '' # token) \<and>
       CHR '' '' \<notin> set scheme \<and> CHR '' '' \<notin> set token \<and> lower scheme = ''bearer'' \<longrightarrow>
      get_token_auth_header data = Inr token)
   \<and> (map_of data ''Authorization'' = Some v \<and>
       (\<forall>a b. v = a @ CHR '' '' # b \<and> CHR '' '' \<notin> set a \<and> CHR '' '' \<notin> set b \<longrightarrow>
              lower a \<noteq> ''bearer'') \<longrightarrow>
      get_token_auth_header data =
        Inl (AuthErr \<lparr>error = [(''code'', ''invalid_header''),
            (''description'', ''header must start with 'Bearer' and include proper token'')],
           status_code = 401\<rparr>))"
proof (intro conjI impI)
  assume "map_of data ''Authorization'' = None"
  then show "get_token_auth_header data =
        Inl (AuthErr \<lparr>error = [(''code'', ''authorization_header_missing''),
                              (''description'', ''Authorization header is expected'')],
                     status_code = 401\<rparr>)"
    by (simp add: get_token_auth_header_def)
next
  assume h: "map_of data ''Authorization'' = Some (scheme @ CHR '' '' # token) \<and>
       CHR '' '' \<notin> set scheme \<and> CHR '' '' \<notin> set token \<and> lower scheme = ''bearer''"
  then have "split_on CHR '' '' (scheme @ CHR '' '' # token) = [scheme, token]"
    by (simp add: split_on_pair_iff)
  with h show "get_token_auth_header data = Inr token"
    by (simp add: get_token_auth_header_def subscript_def)
next
  assume h: "map_of data ''Authorization'' = Some v \<and>
       (\<forall>a b. v = a @ CHR '' '' # b \<and> CHR '' '' \<notin> set a \<and> CHR '' '' \<notin> set b \<longrightarrow>
              lower a \<noteq> ''bearer'')"
  have "length (split_on CHR '' '' v) \<noteq> 2 \<or> lower (split_on CHR '' '' v ! 0) \<noteq> ''bearer''"
  proof (cases "length (split_on CHR '' '' v) = 2")
    case True
    then obtain a b where ab: "split_on CHR '' '' v = [a, b]"
      by (auto simp: length_two)
    with h have "lower a \<noteq> ''bearer''"
      by (simp add: split_on_pair_iff)
    with ab show ?thesis by simp
  next
    case False
    then show ?thesis by simp
  qed
  with h show "get_token_auth_header data =
        Inl (AuthErr \<lparr>error = [(''code'', ''invalid_header''),
            (''description'', ''header must start with 'Bearer' and include proper token'')],
           status_code = 401\<rparr>)"
    by (simp add: get_token_auth_header_def subscript_def Let_def)
qed

theorem get_token_auth_header_single_space_witness:
  "get_token_auth_header [] =
     Inl (AuthErr \<lparr>error = [(''code'', ''authorization_header_missing''),
                           (''description'', ''Authorization header is expected'')],
                  status_code = 401\<rparr>)
   \<and> get_token_auth_header [(''Authorization'', ''bEARER tok'')] = Inr ''tok''
   \<and> get_token_auth_header [(''Authorization'', ''Basic tok'')] =
       Inl (AuthErr \<lparr>error = [(''code'', ''invalid_header''),
           (''description'', ''header must start with 'Bearer' and include proper token'')],
          status_code = 401\<rparr>)"
proof (intro conjI)
  show "get_token_auth_header [] =
     Inl (AuthErr \<lparr>error = [(''code'', ''authorization_header_missing''),
                           (''description'', ''Authorization header is expected'')],
                  status_code = 401\<rparr>)"
    using get_token_auth_header_single_space [where data = "[]"] by simp
next
  have "lower ''bEARER'' = ''bearer''"
    by code_simp
  then show "get_token_auth_header [(''Authorization'', ''bEARER tok'')] = Inr ''tok''"
    using get_token_auth_header_single_space
      [where data = "[(''Authorization'', ''bEARER tok'')]"
         and scheme = "''bEARER''" and token = "''tok''"]
    by simp
next
  have "\<forall>a b. ''Basic tok'' = a @ CHR '' '' # b \<and> CHR '' '' \<notin> set a \<and>
             CHR '' '' \<notin> set b \<longrightarrow> lower a \<noteq> ''bearer''"
  proof (intro allI impI)
    fix a b
    assume "''Basic tok'' = a @ CHR '' '' # b \<and> CHR '' '' \<notin> set a \<and> CHR '' '' \<notin> set b"
    then have "split_on CHR '' '' ''Basic tok'' = [a, b]"
      using split_on_pair_iff [of "CHR '' ''" "''Basic tok''" a b] by blast
    then have "a = ''Basic''" by simp
    then show "lower a \<noteq> ''bearer''" by (simp add: lower_def)
  qed
  then show "get_token_auth_header [(''Authorization'', ''Basic tok'')] =
       Inl (AuthErr \<lparr>error = [(''code'', ''invalid_header''),
           (''description'', ''header must start with 'Bearer' and include proper token'')],
          status_code = 401\<rparr>)"
    using get_token_auth_header_single_space
      [where data = "[(''Authorization'', ''Basic tok'')]" and v = "''Basic tok''"]
    by simp
qed

text \<open>
  Splitting on whitespace, as claim C3 words it, is not what the code does: two spaces
  between the scheme and the token give two whitespace-separated tokens, the first of
  them \<open>bearer\<close>, and still the code raises \<open>invalid_header\<close>, because cutting at every
  space leaves an empty part in the middle.
\<close>

theorem get_token_auth_header_whitespace_counterexample:
  "split_whitespace ''Bearer  tok'' = [''Bearer'', ''tok'']
   \<and> lower ''Bearer'' = ''bearer''
   \<and> get_token_auth_header_spec [(''Authorization'', ''Bearer  tok'')] = Inr ''tok''
   \<and> get_token_auth_header [(''Authorization'', ''Bearer  tok'')] =
       Inl (AuthErr \<lparr>error = [(''code'', ''invalid_header''),
           (''description'', ''header must start with 'Bearer' and include proper token'')],
          status_code = 401\<rparr>)"
  by code_simp

section \<open>The permission enforcer\<close>

text \<open>
  Claim C6. \<open>check_permissions\<close> raises AuthError \<open>missing_permissions\<close> with status 401
  when the payload has no \<open>permissions\<close> member, raises AuthError \<open>not_authorized\<close> with
  status 401 when the member is there and the required permission is not in it, and
  returns \<open>True\<close> otherwise. The function only reads the payload: the source assigns
  nothing to it, so the payload after the call is the payload before it.
\<close>

theorem check_permissions_cases:
  "(permissions pl = None \<longrightarrow>
      check_permissions permission pl =
        Inl (AuthErr \<lparr>error = [(''code'', ''missing_permissions''),
                              (''description'', ''permissions must be sent with token'')],
                     status_code = 401\<rparr>))
   \<and> (permissions pl = Some ps \<and> permission \<notin> set ps \<longrightarrow>
      check_permissions permission pl =
        Inl (AuthErr \<lparr>error = [(''code'', ''not_authorized''),
                        (''description'', ''needed permission not found in permissions'')],
                     status_code = 401\<rparr>))
   \<and> (permissions pl = Some ps \<and> permission \<in> set ps \<longrightarrow>
      check_permissions permission pl = Inr True)"
  by (simp add: check_permissions_def)

theorem check_permissions_cases_witness:
  "check_permissions ''post:drinks'' \<lparr>permissions = None, other_claims = [(''sub'', ''u1'')]\<rparr> =
     Inl (AuthErr \<lparr>error = [(''code'', ''missing_permissions''),
                           (''description'', ''permissions must be sent with token'')],
                  status_code = 401\<rparr>)
   \<and> check_permissions ''post:drinks''
       \<lparr>permissions = Some [''get:drinks-detail''], other_claims = [(''sub'', ''u1'')]\<rparr> =
     Inl (AuthErr \<lparr>error = [(''code'', ''not_authorized''),
                     (''description'', ''needed permission not found in permissions'')],
                  status_code = 401\<rparr>)
   \<and> check_permissions ''post:drinks''
       \<lparr>permissions = Some [''get:drinks-detail'', ''post:drinks''],
        other_claims = [(''sub'', ''u1'')]\<rparr> = Inr True"
  using
    check_permissions_cases [where pl = "\<lparr>permissions = None, other_claims = [(''sub'', ''u1'')]\<rparr>"
      and permission = "''post:drinks''"]
    check_permissions_cases [where pl = "\<lparr>permissions = Some [''get:drinks-detail''],
        other_claims = [(''sub'', ''u1'')]\<rparr>"
      and permission = "''post:drinks''" and ps = "[''get:drinks-detail'']"]
    check_permissions_cases [where pl = "\<lparr>permissions = Some [''get:drinks-detail'', ''post:drinks''],
        other_claims = [(''sub'', ''u1'')]\<rparr>"
      and permission = "''post:drinks''" and ps = "[''get:drinks-detail'', ''post:drinks'']"]
  by simp

text \<open>
  Claim C7. The empty permission string gets no special treatment: when the
  \<open>permissions\<close> member does not contain the empty string, the membership test fails
  and \<open>check_permissions\<close> raises AuthError \<open>not_authorized\<close> with status 401.
\<close>

theorem check_permissions_empty_permission:
  "permissions pl = Some ps \<Longrightarrow> '''' \<notin> set ps \<Longrightarrow>
   check_permissions '''' pl =
     Inl (AuthErr \<lparr>error = [(''code'', ''not_authorized''),
                     (''description'', ''needed permission not found in permissions'')],
                  status_code = 401\<rparr>)"
  by (simp add: check_permissions_def)

theorem check_permissions_empty_permission_witness:
  "check_permissions ''''
     \<lparr>permissions = Some [''get:drinks-detail'', ''post:drinks''], other_claims = []\<rparr> =
     Inl (AuthErr \<lparr>error = [(''code'', ''not_authorized''),
                     (''description'', ''needed permission not found in permissions'')],
                  status_code = 401\<rparr>)"
  using check_permissions_empty_permission
    [of "\<lparr>permissions = Some [''get:drinks-detail'', ''post:drinks''], other_claims = []\<rparr>"
        "[''get:drinks-detail'', ''post:drinks'']"]
  by simp

section \<open>The token verifier\<close>

text \<open>
  Claim C4. Once the key set has been fetched and parsed and the header segment of the
  token has been read: a header without \<open>kid\<close> makes \<open>verify_decode_jwt\<close> raise
  AuthError \<open>invalid_header\<close> with status 401; and a header whose \<open>kid\<close> differs from
  the \<open>kid\<close> of every entry of the key set makes it raise AuthError \<open>invalid_header\<close>
  with status 401 and the description \<open>Unable to find appropriate key\<close>. In both
  cases the result is the exception, so no claim set is produced.
\<close>

theorem verify_decode_jwt_no_kid_or_no_key:
  "(urlopen ev (''https://'' @ AUTH0_DOMAIN @ ''/.well-known/jwks.json'') = Inr body \<and>
    json_loads ev body = Inr jwks \<and>
    get_unverified_header ev token = Inr unverified_header \<and>
    map_of unverified_header ''kid'' = None \<longrightarrow>
      verify_decode_jwt ev token =
        Inl (AuthErr \<lparr>error = [(''code'', ''invalid_header''),
                              (''description'', ''Authorization malformed.'')],
                     status_code = 401\<rparr>))
   \<and> (urlopen ev (''https://'' @ AUTH0_DOMAIN @ ''/.well-known/jwks.json'') = Inr body \<and>
      json_loads ev body = Inr jwks \<and>
      get_unverified_header ev token = Inr unverified_header \<and>
      map_of unverified_header ''kid'' = Some hkid \<and>
      map_of jwks ''keys'' = Some keys \<and>
      (\<forall>key \<in> set keys. \<exists>kid. map_of key ''kid'' = Some kid \<and> kid \<noteq> hkid) \<longrightarrow>
      verify_decode_jwt ev token =
        Inl (AuthErr \<lparr>error = [(''code'', ''invalid_header''),
                              (''description'', ''Unable to find appropriate key'')],
                     status_code = 401\<rparr>))"
proof (intro conjI impI)
  assume "urlopen ev (''https://'' @ AUTH0_DOMAIN @ ''/.well-known/jwks.json'') = Inr body \<and>
    json_loads ev body = Inr jwks \<and>
    get_unverified_header ev token = Inr unverified_header \<and>
    map_of unverified_header ''kid'' = None"
  then show "verify_decode_jwt ev token =
        Inl (AuthErr \<lparr>error = [(''code'', ''invalid_header''),
                              (''description'', ''Authorization malformed.'')],
                     status_code = 401\<rparr>)"
    by (simp add: verify_decode_jwt_def)
next
  assume h: "urlopen ev (''https://'' @ AUTH0_DOMAIN @ ''/.well-known/jwks.json'') = Inr body \<and>
      json_loads ev body = Inr jwks \<and>
      get_unverified_header ev token = Inr unverified_header \<and>
      map_of unverified_header ''kid'' = Some hkid \<and>
      map_of jwks ''keys'' = Some keys \<and>
      (\<forall>key \<in> set keys. \<exists>kid. map_of key ''kid'' = Some kid \<and> kid \<noteq> hkid)"
  then have "scan_keys keys unverified_header [] = Inr []"
    by (simp add: scan_keys_no_match)
  with h show "verify_decode_jwt ev token =
        Inl (AuthErr \<lparr>error = [(''code'', ''invalid_header''),
                              (''description'', ''Unable to find appropriate key'')],
                     status_code = 401\<rparr>)"
    by (simp add: verify_decode_jwt_def subscript_Some)
qed

theorem verify_decode_jwt_no_kid_or_no_key_witness:
  "verify_decode_jwt
     ((sample_env ''Bearer tok'' ''k1'' ExpiredSignatureError)
        \<lparr>get_unverified_header := (\<lambda>token. Inr [(''alg'', ''RS256'')])\<rparr>) ''tok'' =
     Inl (AuthErr \<lparr>error = [(''code'', ''invalid_header''),
                           (''description'', ''Authorization malformed.'')],
                  status_code = 401\<rparr>)
   \<and> verify_decode_jwt (sample_env ''Bearer tok'' ''k9'' ExpiredSignatureError) ''tok'' =
     Inl (AuthErr \<lparr>error = [(''code'', ''invalid_header''),
                           (''description'', ''Unable to find appropriate key'')],
                  status_code = 401\<rparr>)"
proof (intro conjI)
  show "verify_decode_jwt
     ((sample_env ''Bearer tok'' ''k1'' ExpiredSignatureError)
        \<lparr>get_unverified_header := (\<lambda>token. Inr [(''alg'', ''RS256'')])\<rparr>) ''tok'' =
     Inl (AuthErr \<lparr>error = [(''code'', ''invalid_header''),
                           (''description'', ''Authorization malformed.'')],
                  status_code = 401\<rparr>)"
    using verify_decode_jwt_no_kid_or_no_key
      [where ev = "(sample_env ''Bearer tok'' ''k1'' ExpiredSignatureError)
                     \<lparr>get_unverified_header := (\<lambda>token. Inr [(''alg'', ''RS256'')])\<rparr>"
         and token = "''tok''" and body = "''jwks.json''"
         and jwks = "[(''keys'', sample_keys)]"
         and unverified_header = "[(''alg'', ''RS256'')]"]
    by (simp add: sample_env_simps)
next
  show "verify_decode_jwt (sample_env ''Bearer tok'' ''k9'' ExpiredSignatureError) ''tok'' =
     Inl (AuthErr \<lparr>error = [(''code'', ''invalid_header''),
                           (''description'', ''Unable to find appropriate key'')],
                  status_code = 401\<rparr>)"
    using verify_decode_jwt_no_kid_or_no_key
      [where ev = "sample_env ''Bearer tok'' ''k9'' ExpiredSignatureError"
         and token = "''tok''" and body = "''jwks.json''"
         and jwks = "[(''keys'', sample_keys)]"
         and unverified_header = "[(''alg'', ''RS256''), (''kid'', ''k9'')]"
         and hkid = "''k9''" and keys = sample_keys]
    by (simp add: sample_env_simps sample_keys_def)
qed

text \<open>
  Claim C5. When the scan has left a non-empty \<open>rsa_key\<close>, the outcome of
  \<^verbatim>\<open>jwt.decode\<close> decides the result: the payload is returned as it is; an expired
  signature becomes AuthError \<open>token_expired\<close>; a claims error becomes AuthError
  \<open>invalid_claims\<close>; any other exception becomes AuthError \<open>invalid_header\<close>; each of
  the three with status 401. The four outcomes exclude each other, so each failure gets
  exactly one of the three errors.
\<close>

theorem verify_decode_jwt_classifies:
  "urlopen ev (''https://'' @ AUTH0_DOMAIN @ ''/.well-known/jwks.json'') = Inr body \<and>
   json_loads ev body = Inr jwks \<and>
   get_unverified_header ev token = Inr unverified_header \<and>
   map_of unverified_header ''kid'' = Some hkid \<and>
   map_of jwks ''keys'' = Some keys \<and>
   scan_keys keys unverified_header [] = Inr rsa_key \<and> rsa_key \<noteq> [] \<longrightarrow>
   (jwt_decode ev token rsa_key ALGORITHMS API_AUDIENCE (''https://'' @ AUTH0_DOMAIN @ ''/'') =
      Decoded pl \<longrightarrow> verify_decode_jwt ev token = Inr pl)
   \<and> (jwt_decode ev token rsa_key ALGORITHMS API_AUDIENCE (''https://'' @ AUTH0_DOMAIN @ ''/'') =
      ExpiredSignatureError \<longrightarrow>
      verify_decode_jwt ev token =
        Inl (AuthErr \<lparr>error = [(''code'', ''token_expired''),
                              (''description'', ''token is expired'')],
                     status_code = 401\<rparr>))
   \<and> (jwt_decode ev token rsa_key ALGORITHMS API_AUDIENCE (''https://'' @ AUTH0_DOMAIN @ ''/'') =
      JWTClaimsError \<longrightarrow>
      verify_decode_jwt ev token =
        Inl (AuthErr \<lparr>error = [(''code'', ''invalid_claims''),
               (''description'', ''incorrect claims,please check the audience and issuer'')],
             status_code = 401\<rparr>))
   \<and> (jwt_decode ev token rsa_key ALGORITHMS API_AUDIENCE (''https://'' @ AUTH0_DOMAIN @ ''/'') =
      OtherException x \<longrightarrow>
      verify_decode_jwt ev token =
        Inl (AuthErr \<lparr>error = [(''code'', ''invalid_header''),
               (''description'', ''Unable to parse authentication token.'')],
             status_code = 401\<rparr>))"
  by (simp add: verify_decode_jwt_def try_decode_def subscript_Some)

theorem verify_decode_jwt_classifies_witness:
  "verify_decode_jwt
     (sample_env ''Bearer tok'' ''k1''
        (Decoded \<lparr>permissions = Some [''get:drinks-detail''], other_claims = []\<rparr>)) ''tok'' =
     Inr \<lparr>permissions = Some [''get:drinks-detail''], other_claims = []\<rparr>
   \<and> verify_decode_jwt (sample_env ''Bearer tok'' ''k1'' ExpiredSignatureError) ''tok'' =
     Inl (AuthErr \<lparr>error = [(''code'', ''token_expired''),
                           (''description'', ''token is expired'')],
                  status_code = 401\<rparr>)
   \<and> verify_decode_jwt (sample_env ''Bearer tok'' ''k1'' JWTClaimsError) ''tok'' =
     Inl (AuthErr \<lparr>error = [(''code'', ''invalid_claims''),
            (''description'', ''incorrect claims,please check the audience and issuer'')],
          status_code = 401\<rparr>)
   \<and> verify_decode_jwt (sample_env ''Bearer tok'' ''k1'' (OtherException ''JWTError'')) ''tok'' =
     Inl (AuthErr \<lparr>error = [(''code'', ''invalid_header''),
            (''description'', ''Unable to parse authentication token.'')],
          status_code = 401\<rparr>)"
proof (intro conjI)
  show "verify_decode_jwt
     (sample_env ''Bearer tok'' ''k1''
        (Decoded \<lparr>permissions = Some [''get:drinks-detail''], other_claims = []\<rparr>)) ''tok'' =
     Inr \<lparr>permissions = Some [''get:drinks-detail''], other_claims = []\<rparr>"
    using verify_decode_jwt_classifies
      [where ev = "sample_env ''Bearer tok'' ''k1'' (Decoded \<lparr>permissions = Some [''get:drinks-detail''], other_claims = []\<rparr>)" and token = "''tok''"
         and body = "''jwks.json''" and jwks = "[(''keys'', sample_keys)]"
         and unverified_header = "[(''alg'', ''RS256''), (''kid'', ''k1'')]"
         and hkid = "''k1''" and keys = sample_keys
         and rsa_key = "[(''kty'', ''RSA''), (''kid'', ''k1''), (''use'', ''sig''),
                         (''n'', ''n-new''), (''e'', ''AQAB'')]"
         and pl = "\<lparr>permissions = Some [''get:drinks-detail''], other_claims = []\<rparr>"]
    by (simp add: sample_env_simps scan_sample_keys)
next
  show "verify_decode_jwt (sample_env ''Bearer tok'' ''k1'' ExpiredSignatureError) ''tok'' =
     Inl (AuthErr \<lparr>error = [(''code'', ''token_expired''),
                           (''description'', ''token is expired'')],
                  status_code = 401\<rparr>)"
    using verify_decode_jwt_classifies
      [where ev = "sample_env ''Bearer tok'' ''k1'' (ExpiredSignatureError)" and token = "''tok''"
         and body = "''jwks.json''" and jwks = "[(''keys'', sample_keys)]"
         and unverified_header = "[(''alg'', ''RS256''), (''kid'', ''k1'')]"
         and hkid = "''k1''" and keys = sample_keys
         and rsa_key = "[(''kty'', ''RSA''), (''kid'', ''k1''), (''use'', ''sig''),
                         (''n'', ''n-new''), (''e'', ''AQAB'')]"]
    by (simp add: sample_env_simps scan_sample_keys)
next
  show "verify_decode_jwt (sample_env ''Bearer tok'' ''k1'' JWTClaimsError) ''tok'' =
     Inl (AuthErr \<lparr>error = [(''code'', ''invalid_claims''),
            (''description'', ''incorrect claims,please check the audience and issuer'')],
          status_code = 401\<rparr>)"
    using verify_decode_jwt_classifies
      [where ev = "sample_env ''Bearer tok'' ''k1'' (JWTClaimsError)" and token = "''tok''"
         and body = "''jwks.json''" and jwks = "[(''keys'', sample_keys)]"
         and unverified_header = "[(''alg'', ''RS256''), (''kid'', ''k1'')]"
         and hkid = "''k1''" and keys = sample_keys
         and rsa_key = "[(''kty'', ''RSA''), (''kid'', ''k1''), (''use'', ''sig''),
                         (''n'', ''n-new''), (''e'', ''AQAB'')]"]
    by (simp add: sample_env_simps scan_sample_keys)
next
  show "verify_decode_jwt (sample_env ''Bearer tok'' ''k1'' (OtherException ''JWTError'')) ''tok'' =
     Inl (AuthErr \<lparr>error = [(''code'', ''invalid_header''),
            (''description'', ''Unable to parse authentication token.'')],
          status_code = 401\<rparr>)"
    using verify_decode_jwt_classifies
      [where ev = "sample_env ''Bearer tok'' ''k1'' (OtherException ''JWTError'')" and token = "''tok''"
         and body = "''jwks.json''" and jwks = "[(''keys'', sample_keys)]"
         and unverified_header = "[(''alg'', ''RS256''), (''kid'', ''k1'')]"
         and hkid = "''k1''" and keys = sample_keys
         and rsa_key = "[(''kty'', ''RSA''), (''kid'', ''k1''), (''use'', ''sig''),
                         (''n'', ''n-new''), (''e'', ''AQAB'')]"
         and x = "''JWTError''"]
    by (simp add: sample_env_simps scan_sample_keys)
qed

text \<open>
  Claim C10. The scan keeps the last entry whose \<open>kid\<close> equals the one of the token
  header: whatever the entries before it (with the same \<open>kid\<close> or not), when no entry
  after it has that \<open>kid\<close>, the selected key consists of exactly the members \<open>kty\<close>,
  \<open>kid\<close>, \<open>use\<close>, \<open>n\<close>, \<open>e\<close> of that entry, in this order, and it is the key that
  \<^verbatim>\<open>jwt.decode\<close> is called with.
\<close>

theorem scan_keys_selects_last_match:
  "map_of unverified_header ''kid'' = Some hkid \<and>
   list_all has_key_fields pre \<and>
   map_of key ''kty'' = Some kty \<and> map_of key ''kid'' = Some hkid \<and>
   map_of key ''use'' = Some use \<and> map_of key ''n'' = Some n \<and> map_of key ''e'' = Some e \<and>
   (\<forall>k \<in> set post. \<exists>kid. map_of k ''kid'' = Some kid \<and> kid \<noteq> hkid) \<longrightarrow>
   scan_keys (pre @ key # post) unverified_header [] =
     Inr [(''kty'', kty), (''kid'', hkid), (''use'', use), (''n'', n), (''e'', e)]
   \<and> (urlopen ev (''https://'' @ AUTH0_DOMAIN @ ''/.well-known/jwks.json'') = Inr body \<and>
      json_loads ev body = Inr jwks \<and>
      get_unverified_header ev token = Inr unverified_header \<and>
      map_of jwks ''keys'' = Some (pre @ key # post) \<longrightarrow>
      verify_decode_jwt ev token =
        try_decode ev token
          [(''kty'', kty), (''kid'', hkid), (''use'', use), (''n'', n), (''e'', e)])"
proof (intro impI)
  assume h: "map_of unverified_header ''kid'' = Some hkid \<and>
   list_all has_key_fields pre \<and>
   map_of key ''kty'' = Some kty \<and> map_of key ''kid'' = Some hkid \<and>
   map_of key ''use'' = Some use \<and> map_of key ''n'' = Some n \<and> map_of key ''e'' = Some e \<and>
   (\<forall>k \<in> set post. \<exists>kid. map_of k ''kid'' = Some kid \<and> kid \<noteq> hkid)"
  then have s: "scan_keys (pre @ key # post) unverified_header [] =
     Inr [(''kty'', kty), (''kid'', hkid), (''use'', use), (''n'', n), (''e'', e)]"
    by (intro scan_keys_last_match) simp_all
  have "verify_decode_jwt ev token =
        try_decode ev token
          [(''kty'', kty), (''kid'', hkid), (''use'', use), (''n'', n), (''e'', e)]"
    if "urlopen ev (''https://'' @ AUTH0_DOMAIN @ ''/.well-known/jwks.json'') = Inr body \<and>
      json_loads ev body = Inr jwks \<and>
      get_unverified_header ev token = Inr unverified_header \<and>
      map_of jwks ''keys'' = Some (pre @ key # post)"
    using that h s by (simp add: verify_decode_jwt_def subscript_Some)
  with s show "scan_keys (pre @ key # post) unverified_header [] =
     Inr [(''kty'', kty), (''kid'', hkid), (''use'', use), (''n'', n), (''e'', e)]
   \<and> (urlopen ev (''https://'' @ AUTH0_DOMAIN @ ''/.well-known/jwks.json'') = Inr body \<and>
      json_loads ev body = Inr jwks \<and>
      get_unverified_header ev token = Inr unverified_header \<and>
      map_of jwks ''keys'' = Some (pre @ key # post) \<longrightarrow>
      verify_decode_jwt ev token =
        try_decode ev token
          [(''kty'', kty), (''kid'', hkid), (''use'', use), (''n'', n), (''e'', e)])"
    by blast
qed

theorem scan_keys_selects_last_match_witness:
  "scan_keys sample_keys [(''alg'', ''RS256''), (''kid'', ''k1'')] [] =
     Inr [(''kty'', ''RSA''), (''kid'', ''k1''), (''use'', ''sig''), (''n'', ''n-new''),
          (''e'', ''AQAB'')]
   \<and> verify_decode_jwt (sample_env ''Bearer tok'' ''k1'' JWTClaimsError) ''tok'' =
     try_decode (sample_env ''Bearer tok'' ''k1'' JWTClaimsError) ''tok''
       [(''kty'', ''RSA''), (''kid'', ''k1''), (''use'', ''sig''), (''n'', ''n-new''),
        (''e'', ''AQAB'')]"
  using scan_keys_selects_last_match
    [where unverified_header = "[(''alg'', ''RS256''), (''kid'', ''k1'')]" and hkid = "''k1''"
       and pre = "[[(''kty'', ''RSA''), (''kid'', ''k1''), (''use'', ''sig''), (''n'', ''n-old''),
                    (''e'', ''AQAB'')],
                   [(''kty'', ''RSA''), (''kid'', ''k2''), (''use'', ''sig''), (''n'', ''n-two''),
                    (''e'', ''AQAB'')]]"
       and key = "[(''kty'', ''RSA''), (''kid'', ''k1''), (''use'', ''sig''), (''n'', ''n-new''),
                   (''e'', ''AQAB''), (''alg'', ''RS256'')]"
       and post = "[]" and kty = "''RSA''" and use = "''sig''" and n = "''n-new''"
       and e = "''AQAB''" and ev = "sample_env ''Bearer tok'' ''k1'' JWTClaimsError"
       and token = "''tok''" and body = "''jwks.json''"
       and jwks = "[(''keys'', sample_keys)]"]
  by (simp add: sample_env_simps sample_keys_def has_key_fields_def)

section \<open>The auth gate\<close>

text \<open>
  Claim C1. The wrapped operation is made to count its invocations. When one of the
  three stages raises an AuthError (the extraction of the token, the verification, or
  the permission check, each after the earlier ones have passed), the wrapper returns
  that same AuthError to its caller, the state of the application is as before, and the
  count has not moved: the operation was not invoked. Conversely, when the count has
  moved, all three stages have passed.
\<close>

theorem requires_auth_short_circuits:
  "(get_token_auth_header (request_headers ev) = Inl (AuthErr a) \<or>
    (get_token_auth_header (request_headers ev) = Inr token \<and>
     verify_decode_jwt ev token = Inl (AuthErr a)) \<or>
    (get_token_auth_header (request_headers ev) = Inr token \<and>
     verify_decode_jwt ev token = Inr pl \<and>
     check_permissions permission pl = Inl (AuthErr a)) \<longrightarrow>
    requires_auth permission (counted f) ev args (n, s) = (Inl (AuthErr a), (n, s)))
   \<and> (fst (snd (requires_auth permission (counted f) ev args (n, s))) \<noteq> n \<longrightarrow>
      (\<exists>token pl. get_token_auth_header (request_headers ev) = Inr token \<and>
         verify_decode_jwt ev token = Inr pl \<and> check_permissions permission pl = Inr True))"
proof (intro conjI impI)
  assume "get_token_auth_header (request_headers ev) = Inl (AuthErr a) \<or>
    (get_token_auth_header (request_headers ev) = Inr token \<and>
     verify_decode_jwt ev token = Inl (AuthErr a)) \<or>
    (get_token_auth_header (request_headers ev) = Inr token \<and>
     verify_decode_jwt ev token = Inr pl \<and>
     check_permissions permission pl = Inl (AuthErr a))"
  then show "requires_auth permission (counted f) ev args (n, s) = (Inl (AuthErr a), (n, s))"
    by (auto simp: requires_auth_def)
next
  assume c: "fst (snd (requires_auth permission (counted f) ev args (n, s))) \<noteq> n"
  show "\<exists>token pl. get_token_auth_header (request_headers ev) = Inr token \<and>
         verify_decode_jwt ev token = Inr pl \<and> check_permissions permission pl = Inr True"
  proof (cases "get_token_auth_header (request_headers ev)")
    case (Inl x)
    with c show ?thesis by (simp add: requires_auth_def)
  next
    case token: (Inr token)
    show ?thesis
    proof (cases "verify_decode_jwt ev token")
      case (Inl x)
      with c token show ?thesis by (simp add: requires_auth_def)
    next
      case pl: (Inr pl)
      show ?thesis
      proof (cases "check_permissions permission pl")
        case (Inl x)
        with c token pl show ?thesis by (simp add: requires_auth_def)
      next
        case (Inr ok)
        with check_permissions_Inr [OF this] token pl show ?thesis by simp
      qed
    qed
  qed
qed

theorem requires_auth_short_circuits_witness:
  "requires_auth ''post:drinks'' (counted sample_operation)
     (sample_env ''Basic tok'' ''k1''
        (Decoded \<lparr>permissions = Some [''post:drinks''], other_claims = []\<rparr>))
     ''latte'' (0, []) =
     (Inl (AuthErr \<lparr>error = [(''code'', ''invalid_header''),
         (''description'', ''header must start with 'Bearer' and include proper token'')],
        status_code = 401\<rparr>), (0, []))
   \<and> requires_auth ''post:drinks'' (counted sample_operation)
       (sample_env ''Bearer tok'' ''k1'' ExpiredSignatureError) ''latte'' (0, []) =
     (Inl (AuthErr \<lparr>error = [(''code'', ''token_expired''),
                           (''description'', ''token is expired'')],
                  status_code = 401\<rparr>), (0, []))
   \<and> requires_auth ''post:drinks'' (counted sample_operation)
       (sample_env ''Bearer tok'' ''k1''
          (Decoded \<lparr>permissions = Some [''get:drinks-detail''], other_claims = []\<rparr>))
       ''latte'' (0, []) =
     (Inl (AuthErr \<lparr>error = [(''code'', ''not_authorized''),
                     (''description'', ''needed permission not found in permissions'')],
                  status_code = 401\<rparr>), (0, []))
   \<and> (\<exists>token pl.
        get_token_auth_header
          (request_headers (sample_env ''Bearer tok'' ''k1''
             (Decoded \<lparr>permissions = Some [''post:drinks''], other_claims = []\<rparr>))) =
          Inr token \<and>
        verify_decode_jwt (sample_env ''Bearer tok'' ''k1''
             (Decoded \<lparr>permissions = Some [''post:drinks''], other_claims = []\<rparr>)) token =
          Inr pl \<and>
        check_permissions ''post:drinks'' pl = Inr True)"
proof (intro conjI)
  have "get_token_auth_header
      (request_headers (sample_env ''Basic tok'' ''k1''
        (Decoded \<lparr>permissions = Some [''post:drinks''], other_claims = []\<rparr>))) =
     Inl (AuthErr \<lparr>error = [(''code'', ''invalid_header''),
         (''description'', ''header must start with 'Bearer' and include proper token'')],
        status_code = 401\<rparr>)"
    by (simp add: sample_env_simps get_token_auth_header_def subscript_def lower_def)
  then show "requires_auth ''post:drinks'' (counted sample_operation)
     (sample_env ''Basic tok'' ''k1''
        (Decoded \<lparr>permissions = Some [''post:drinks''], other_claims = []\<rparr>))
     ''latte'' (0, []) =
     (Inl (AuthErr \<lparr>error = [(''code'', ''invalid_header''),
         (''description'', ''header must start with 'Bearer' and include proper token'')],
        status_code = 401\<rparr>), (0, []))"
    using requires_auth_short_circuits
      [where ev = "sample_env ''Basic tok'' ''k1''
          (Decoded \<lparr>permissions = Some [''post:drinks''], other_claims = []\<rparr>)"
         and permission = "''post:drinks''" and f = sample_operation and args = "''latte''"
         and n = 0 and s = "[]"
         and a = "\<lparr>error = [(''code'', ''invalid_header''),
            (''description'', ''header must start with 'Bearer' and include proper token'')],
            status_code = 401\<rparr>"]
    by simp
next
  have "verify_decode_jwt (sample_env ''Bearer tok'' ''k1'' ExpiredSignatureError) ''tok'' =
     Inl (AuthErr \<lparr>error = [(''code'', ''token_expired''),
                           (''description'', ''token is expired'')],
                  status_code = 401\<rparr>)"
    by (simp add: verify_sample try_decode_def sample_env_simps)
  then show "requires_auth ''post:drinks'' (counted sample_operation)
       (sample_env ''Bearer tok'' ''k1'' ExpiredSignatureError) ''latte'' (0, []) =
     (Inl (AuthErr \<lparr>error = [(''code'', ''token_expired''),
                           (''description'', ''token is expired'')],
                  status_code = 401\<rparr>), (0, []))"
    using requires_auth_short_circuits
      [where ev = "sample_env ''Bearer tok'' ''k1'' ExpiredSignatureError"
         and permission = "''post:drinks''" and f = sample_operation and args = "''latte''"
         and n = 0 and s = "[]" and token = "''tok''"
         and a = "\<lparr>error = [(''code'', ''token_expired''),
                           (''description'', ''token is expired'')],
                  status_code = 401\<rparr>"]
      sample_token [of "''k1''" ExpiredSignatureError]
    by simp
next
  have "verify_decode_jwt (sample_env ''Bearer tok'' ''k1''
          (Decoded \<lparr>permissions = Some [''get:drinks-detail''], other_claims = []\<rparr>)) ''tok'' =
     Inr \<lparr>permissions = Some [''get:drinks-detail''], other_claims = []\<rparr>"
    by (simp add: verify_sample try_decode_def sample_env_simps)
  then show "requires_auth ''post:drinks'' (counted sample_operation)
       (sample_env ''Bearer tok'' ''k1''
          (Decoded \<lparr>permissions = Some [''get:drinks-detail''], other_claims = []\<rparr>))
       ''latte'' (0, []) =
     (Inl (AuthErr \<lparr>error = [(''code'', ''not_authorized''),
                     (''description'', ''needed permission not found in permissions'')],
                  status_code = 401\<rparr>), (0, []))"
    using requires_auth_short_circuits
      [where ev = "sample_env ''Bearer tok'' ''k1''
          (Decoded \<lparr>permissions = Some [''get:drinks-detail''], other_claims = []\<rparr>)"
         and permission = "''post:drinks''" and f = sample_operation and args = "''latte''"
         and n = 0 and s = "[]" and token = "''tok''"
         and pl = "\<lparr>permissions = Some [''get:drinks-detail''], other_claims = []\<rparr>"
         and a = "\<lparr>error = [(''code'', ''not_authorized''),
                     (''description'', ''needed permission not found in permissions'')],
                  status_code = 401\<rparr>"]
      sample_token [of "''k1''"
        "Decoded \<lparr>permissions = Some [''get:drinks-detail''], other_claims = []\<rparr>"]
    by (simp add: check_permissions_def)
next
  have "fst (snd (requires_auth ''post:drinks'' (counted sample_operation)
       (sample_env ''Bearer tok'' ''k1''
          (Decoded \<lparr>permissions = Some [''post:drinks''], other_claims = []\<rparr>))
       ''latte'' (0, []))) \<noteq> 0"
    by (simp add: requires_auth_def sample_headers_token verify_sample try_decode_def
        sample_env_simps check_permissions_def counted_def sample_operation_def)
  then show "\<exists>token pl.
        get_token_auth_header
          (request_headers (sample_env ''Bearer tok'' ''k1''
             (Decoded \<lparr>permissions = Some [''post:drinks''], other_claims = []\<rparr>))) =
          Inr token \<and>
        verify_decode_jwt (sample_env ''Bearer tok'' ''k1''
             (Decoded \<lparr>permissions = Some [''post:drinks''], other_claims = []\<rparr>)) token =
          Inr pl \<and>
        check_permissions ''post:drinks'' pl = Inr True"
    using requires_auth_short_circuits
      [where ev = "sample_env ''Bearer tok'' ''k1''
          (Decoded \<lparr>permissions = Some [''post:drinks''], other_claims = []\<rparr>)"
         and permission = "''post:drinks''" and f = sample_operation and args = "''latte''"
         and n = 0 and s = "[]"]
    by blast
qed

text \<open>
  Claim C2, as far as the code goes. When the three stages pass, the wrapped operation
  runs exactly once: the count moves by one, and result and state are those of the one
  call \<^verbatim>\<open>f(*args, **kwargs)\<close>. The decoded payload is not among the arguments of that
  call and is stored nowhere, so the right-hand side does not depend on it: two
  requests whose payloads differ give the operation the same input. The docstring of
  lines 165 to 173 says that the decorator passes the decoded payload to the decorated
  method.
\<close>

theorem requires_auth_runs_operation_without_payload:
  "get_token_auth_header (request_headers ev) = Inr token \<and>
   verify_decode_jwt ev token = Inr pl \<and>
   check_permissions permission pl = Inr True \<longrightarrow>
   requires_auth permission (counted f) ev args (n, s) =
     (fst (f args s), (Suc n, snd (f args s)))"
  by (simp add: requires_auth_def counted_def split: prod.splits)

theorem requires_auth_runs_operation_without_payload_witness:
  "requires_auth ''get:drinks-detail'' (counted sample_operation)
     (sample_env ''Bearer tok'' ''k1''
        (Decoded \<lparr>permissions = Some [''get:drinks-detail''],
                  other_claims = [(''sub'', ''alice'')]\<rparr>))
     ''latte'' (0, []) = (Inr ''latte'', (1, [''latte'']))
   \<and> requires_auth ''get:drinks-detail'' (counted sample_operation)
     (sample_env ''Bearer tok'' ''k1''
        (Decoded \<lparr>permissions = Some [''get:drinks-detail'', ''post:drinks''],
                  other_claims = [(''sub'', ''bob'')]\<rparr>))
     ''latte'' (0, []) = (Inr ''latte'', (1, [''latte'']))"
proof (intro conjI)
  show "requires_auth ''get:drinks-detail'' (counted sample_operation)
     (sample_env ''Bearer tok'' ''k1''
        (Decoded \<lparr>permissions = Some [''get:drinks-detail''],
                  other_claims = [(''sub'', ''alice'')]\<rparr>))
     ''latte'' (0, []) = (Inr ''latte'', (1, [''latte'']))"
    using requires_auth_runs_operation_without_payload
      [where ev = "sample_env ''Bearer tok'' ''k1''
          (Decoded \<lparr>permissions = Some [''get:drinks-detail''],
                    other_claims = [(''sub'', ''alice'')]\<rparr>)"
         and token = "''tok''"
         and pl = "\<lparr>permissions = Some [''get:drinks-detail''],
                    other_claims = [(''sub'', ''alice'')]\<rparr>"
         and permission = "''get:drinks-detail''" and f = sample_operation
         and args = "''latte''" and n = 0 and s = "[]"]
    by (simp add: sample_headers_token verify_sample try_decode_def sample_env_simps
        check_permissions_def sample_operation_def)
next
  show "requires_auth ''get:drinks-detail'' (counted sample_operation)
     (sample_env ''Bearer tok'' ''k1''
        (Decoded \<lparr>permissions = Some [''get:drinks-detail'', ''post:drinks''],
                  other_claims = [(''sub'', ''bob'')]\<rparr>))
     ''latte'' (0, []) = (Inr ''latte'', (1, [''latte'']))"
    using requires_auth_runs_operation_without_payload
      [where ev = "sample_env ''Bearer tok'' ''k1''
          (Decoded \<lparr>permissions = Some [''get:drinks-detail'', ''post:drinks''],
                    other_claims = [(''sub'', ''bob'')]\<rparr>)"
         and token = "''tok''"
         and pl = "\<lparr>permissions = Some [''get:drinks-detail'', ''post:drinks''],
                    other_claims = [(''sub'', ''bob'')]\<rparr>"
         and permission = "''get:drinks-detail''" and f = sample_operation
         and args = "''latte''" and n = 0 and s = "[]"]
    by (simp add: sample_headers_token verify_sample try_decode_def sample_env_simps
        check_permissions_def sample_operation_def)
qed

section \<open>The key-set fetch\<close>

text \<open>
  Claim C8, as the code has it. A failure of the fetch, or of parsing the response,
  leaves \<open>verify_decode_jwt\<close> as the exception of the library that raised it, before
  the token is looked at: no key set is made up, no claim set is produced, and the
  wrapper passes the exception on without invoking the operation. The exception is not
  an AuthError, so the handler registered for AuthError does not render it.
\<close>

theorem verify_decode_jwt_fetch_failure:
  "(urlopen ev (''https://'' @ AUTH0_DOMAIN @ ''/.well-known/jwks.json'') = Inl x \<longrightarrow>
      verify_decode_jwt ev token = Inl (LibraryError x))
   \<and> (urlopen ev (''https://'' @ AUTH0_DOMAIN @ ''/.well-known/jwks.json'') = Inr body \<and>
      json_loads ev body = Inl x \<longrightarrow>
      verify_decode_jwt ev token = Inl (LibraryError x))
   \<and> (get_token_auth_header (request_headers ev) = Inr token \<and>
      verify_decode_jwt ev token = Inl (LibraryError x) \<longrightarrow>
      requires_auth permission (counted f) ev args (n, s) = (Inl (LibraryError x), (n, s)))"
  by (simp add: verify_decode_jwt_def requires_auth_def)

theorem verify_decode_jwt_fetch_failure_witness:
  "verify_decode_jwt unreachable_env ''tok'' = Inl (LibraryError ''URLError'')
   \<and> verify_decode_jwt
       ((sample_env ''Bearer tok'' ''k1'' ExpiredSignatureError)
          \<lparr>json_loads := (\<lambda>body. Inl ''JSONDecodeError'')\<rparr>) ''tok'' =
     Inl (LibraryError ''JSONDecodeError'')
   \<and> requires_auth ''get:drinks-detail'' (counted sample_operation) unreachable_env
       ''latte'' (0, []) = (Inl (LibraryError ''URLError''), (0, []))"
proof (intro conjI)
  show u: "verify_decode_jwt unreachable_env ''tok'' = Inl (LibraryError ''URLError'')"
    using verify_decode_jwt_fetch_failure
      [where ev = unreachable_env and x = "''URLError''" and token = "''tok''",
        THEN conjunct1]
    by (simp add: unreachable_env_simps)
  show "verify_decode_jwt
       ((sample_env ''Bearer tok'' ''k1'' ExpiredSignatureError)
          \<lparr>json_loads := (\<lambda>body. Inl ''JSONDecodeError'')\<rparr>) ''tok'' =
     Inl (LibraryError ''JSONDecodeError'')"
    using verify_decode_jwt_fetch_failure
      [where ev = "(sample_env ''Bearer tok'' ''k1'' ExpiredSignatureError)
          \<lparr>json_loads := (\<lambda>body. Inl ''JSONDecodeError'')\<rparr>"
         and x = "''JSONDecodeError''" and token = "''tok''" and body = "''jwks.json''",
        THEN conjunct2, THEN conjunct1]
    by (simp add: sample_env_simps)
  show "requires_auth ''get:drinks-detail'' (counted sample_operation) unreachable_env
       ''latte'' (0, []) = (Inl (LibraryError ''URLError''), (0, []))"
    using verify_decode_jwt_fetch_failure
      [where ev = unreachable_env and x = "''URLError''" and token = "''tok''"
         and permission = "''get:drinks-detail''" and f = sample_operation
         and args = "''latte''" and n = 0 and s = "[]",
        THEN conjunct2, THEN conjunct2] u
    by (simp add: unreachable_env_simps sample_headers_token)
qed

text \<open>
  Claim C8 places the exception of a failed fetch in the AuthError taxonomy. It does
  not belong there: with the key-set endpoint out of reach the result is the
  \<open>URLError\<close> of urllib.
\<close>

theorem verify_decode_jwt_fetch_failure_counterexample:
  "verify_decode_jwt unreachable_env ''tok'' = Inl (LibraryError ''URLError'')
   \<and> \<not> is_AuthError (verify_decode_jwt unreachable_env ''tok'')"
  by (simp add: verify_decode_jwt_def unreachable_env_simps)

section \<open>The boundary error handler\<close>

text \<open>
  Claim C9. Every AuthError that one of the three stages raises carries a description,
  and \<open>auth_error\<close> renders it as the body with \<open>success\<close> false, \<open>error\<close> the status
  code of the AuthError and \<open>message\<close> its description, together with that status
  code as the HTTP status.
\<close>

theorem auth_error_renders:
  "get_token_auth_header data = Inl (AuthErr a) \<or>
   verify_decode_jwt ev token = Inl (AuthErr a) \<or>
   check_permissions permission pl = Inl (AuthErr a) \<longrightarrow>
   (\<exists>d. map_of (error a) ''description'' = Some d \<and>
        auth_error a =
          Inr ([(''success'', JBool False), (''error'', JInt (status_code a)),
                (''message'', JStr d)],
               status_code a))"
proof
  assume "get_token_auth_header data = Inl (AuthErr a) \<or>
   verify_decode_jwt ev token = Inl (AuthErr a) \<or>
   check_permissions permission pl = Inl (AuthErr a)"
  then have "map_of (error a) ''description'' \<noteq> None"
    using get_token_auth_header_description verify_decode_jwt_description
      check_permissions_description by blast
  then obtain d where "map_of (error a) ''description'' = Some d" by blast
  then show "\<exists>d. map_of (error a) ''description'' = Some d \<and>
        auth_error a =
          Inr ([(''success'', JBool False), (''error'', JInt (status_code a)),
                (''message'', JStr d)],
               status_code a)"
    by (simp add: auth_error_def subscript_def)
qed

theorem auth_error_renders_witness:
  "auth_error \<lparr>error = [(''code'', ''authorization_header_missing''),
                        (''description'', ''Authorization header is expected'')],
               status_code = 401\<rparr> =
     Inr ([(''success'', JBool False), (''error'', JInt 401),
           (''message'', JStr ''Authorization header is expected'')], 401)"
proof -
  have "get_token_auth_header [(''Host'', ''localhost'')] =
      Inl (AuthErr \<lparr>error = [(''code'', ''authorization_header_missing''),
                        (''description'', ''Authorization header is expected'')],
               status_code = 401\<rparr>)"
    by (simp add: get_token_auth_header_def)
  then show ?thesis
    using auth_error_renders
      [where data = "[(''Host'', ''localhost'')]"
         and a = "\<lparr>error = [(''code'', ''authorization_header_missing''),
                        (''description'', ''Authorization header is expected'')],
               status_code = 401\<rparr>"]
    by simp
qed

end
